theory Spec2Isabelle
  imports Complex_Main "HOL-Library.Sublist"
begin

section \<open>Shared conventions\<close>

text \<open>
  The workers are Python programs. Each source function below is embedded as a HOL
  function of the same name. Python dictionaries with a fixed set of keys become
  records, optional keys become \<open>option\<close> fields, exceptions become values of
  \<open>py_error\<close>, mutation of the relational store becomes explicit state passing, and
  \<open>while\<close> loops that the source does not bound become partial functions in the
  option monad, where \<open>None\<close> means that the loop never returns.

  Python floats are modelled by \<open>real\<close>: every number that the modelled functions
  compare or return is a quotient of two list lengths, a sum, a maximum or a product
  with a decimal constant, and the properties below are stated for the exact values.
\<close>

datatype py_error = ValueError | ZeroDivisionError | KeyError | IndexError

text \<open>
  Strings are lists of characters. \<open>content[a:b]\<close> for \<open>0 \<le> a \<le> b\<close>, and \<open>s.strip()\<close>,
  which removes the white space at both ends (the ASCII white space characters of Python:
  codes 9 to 13 and 28 to 32).
\<close>

definition py_slice :: "'a list \<Rightarrow> nat \<Rightarrow> nat \<Rightarrow> 'a list" where
  "py_slice content a b = take (b - a) (drop a content)"



section \<open>Validate worker: data and operations\<close>

subsection \<open>Run results and stability metrics\<close>

text \<open>
  One element of \<open>run_results\<close>, as built by \<open>_execute_single_run\<close> and by the
  exception branch of \<open>run_validation_cycle\<close>. Both always set \<open>run_number\<close>,
  \<open>passed\<close> (a bool) and \<open>duration_ms\<close>.
\<close>

record run_result =
  run_number :: nat
  passed :: bool
  duration_ms :: nat
  logs :: string
  video_url :: string
  trace_url :: string
  error :: "string option"

text \<open>The \<open>summary\<close> sub-dictionary of the metrics.\<close>

record run_summary =
  total_runs :: nat
  passed_runs :: nat
  failed_runs :: nat
  pass_rate :: real

text \<open>
  The dictionary returned by \<open>_calculate_stability_metrics\<close>. The keys
  \<open>stability_class\<close> and \<open>summary\<close> are absent from the dictionary returned for an
  empty list of runs, hence the \<open>option\<close>s. The \<open>performance_stats\<close> entry (mean, median,
  standard deviation, minimum and maximum of the durations) is left out: it feeds no other
  field.
\<close>

record stability_metrics =
  stability_score :: real
  flaky_score :: real
  consistency_score :: real
  stability_class :: "string option"
  summary :: "run_summary option"

text \<open>\<open>numpy.var\<close> with its default \<open>ddof = 0\<close>: the mean of the squared deviations from the mean.\<close>

definition np_var :: "real list \<Rightarrow> real" where
  "np_var xs =
     (let mean = sum_list xs / real (length xs)
      in sum_list (map (\<lambda>x. (x - mean)\<^sup>2) xs) / real (length xs))"

definition results_binary :: "run_result list \<Rightarrow> nat list" where
  "results_binary run_results = map (\<lambda>r. if passed r then 1 else 0) run_results"

definition calculate_stability_metrics :: "run_result list \<Rightarrow> stability_metrics" where
  "calculate_stability_metrics run_results =
     (if run_results = [] then
        \<lparr>stability_score = 0, flaky_score = 1, consistency_score = 0,
         stability_class = None, summary = None\<rparr>
      else
        let passed_runs = filter (\<lambda>r. passed r) run_results;
            failed_runs = filter (\<lambda>r. \<not> passed r) run_results;
            pass_rate = real (length passed_runs) / real (length run_results);
            flaky_score =
              (if 1 < card (set (results_binary run_results))
               then np_var (map real (results_binary run_results))
               else 0);
            consistency_score = 1 - flaky_score;
            stability_class =
              (if pass_rate = 1 then ''stable''
               else if 0.8 \<le> pass_rate then ''mostly_stable''
               else if 0.5 \<le> pass_rate then ''unstable''
               else ''very_unstable'')
        in \<lparr>stability_score = pass_rate, flaky_score = flaky_score,
            consistency_score = consistency_score,
            stability_class = Some stability_class,
            summary = Some \<lparr>total_runs = length run_results,
                            passed_runs = length passed_runs,
                            failed_runs = length failed_runs,
                            pass_rate = pass_rate\<rparr>\<rparr>)"

subsection \<open>Delta minimization\<close>

text \<open>
  \<open>_split_into_subsets\<close>: \<open>range(0, len(items), subset_size)\<close> raises \<open>ValueError\<close>
  when the step \<open>len(items) // n\<close> is zero, and the division raises when \<open>n\<close> is zero.
  \<open>slices sz xs\<close> is the list of \<open>items[i:i + sz]\<close> for \<open>i = 0, sz, 2 sz, \<dots>\<close>.
\<close>

function slices :: "nat \<Rightarrow> 'a list \<Rightarrow> 'a list list" where
  "slices sz xs = (if sz = 0 \<or> xs = [] then [] else take sz xs # slices sz (drop sz xs))"
  by pat_completeness auto
termination
  by (relation "measure (\<lambda>(sz, xs). length xs)") auto

declare slices.simps [simp del]

definition split_into_subsets :: "'a list \<Rightarrow> nat \<Rightarrow> py_error + 'a list list" where
  "split_into_subsets items n =
     (if n = 0 then Inl ZeroDivisionError
      else let subset_size = length items div n
           in if subset_size = 0 then Inl ValueError
              else Inr (slices subset_size items))"

text \<open>
  A step is a dictionary of strings. \<open>_extract_test_steps\<close> ignores the run it is given
  and returns the same three steps.
\<close>

type_synonym step = "(string \<times> string) list"

definition extract_test_steps :: "run_result \<Rightarrow> step list" where
  "extract_test_steps run =
     [[(''type'', ''navigation''), (''url'', ''https://example.com''),
       (''description'', ''Navigate to page'')],
      [(''type'', ''interaction''), (''selector'', ''button''), (''action'', ''click''),
       (''description'', ''Click button'')],
      [(''type'', ''assertion''), (''selector'', ''h1''), (''expected'', ''Success''),
       (''description'', ''Verify success'')]]"

text \<open>
  The stub \<open>_test_steps_still_fail\<close> of the source: \<open>len(steps) > len(steps) * 0.5\<close>.
\<close>

definition test_steps_still_fail :: "'a list \<Rightarrow> bool" where
  "test_steps_still_fail steps \<longleftrightarrow> real (length steps) > real (length steps) * 0.5"

text \<open>
  The \<open>for subset in subsets\<close> loop of \<open>_delta_minimization_algorithm\<close>: the first
  subset whose removal leaves a list on which the test still fails decides; the result is
  that remaining list, or \<open>None\<close> when the loop ends with \<open>found_smaller = False\<close>.
  The removal \<open>[s for s in steps if s not in subset]\<close> is by value.
\<close>

fun find_removable :: "('a list \<Rightarrow> bool) \<Rightarrow> 'a list \<Rightarrow> 'a list list \<Rightarrow> 'a list option" where
  "find_removable test steps [] = None"
| "find_removable test steps (sub # subsets) =
     (let remaining_steps = filter (\<lambda>s. s \<notin> set sub) steps
      in if test remaining_steps then Some remaining_steps
         else find_removable test steps subsets)"

text \<open>
  The \<open>while len(steps) >= 2\<close> loop with its two variables \<open>steps\<close> and \<open>n\<close>. The source
  has no other exit, so the loop is a partial function: \<open>None\<close> is a run that never
  returns, \<open>Some (Inl e)\<close> a run that raises \<open>e\<close>, \<open>Some (Inr s)\<close> a run that returns \<open>s\<close>.
  The test is a parameter: a deterministic predicate on step lists, true when the test
  still fails.
\<close>

partial_function (option) ddmin_loop ::
  "('a list \<Rightarrow> bool) \<Rightarrow> 'a list \<Rightarrow> nat \<Rightarrow> (py_error + 'a list) option" where
  "ddmin_loop test steps n =
     (if 2 \<le> length steps then
        (case split_into_subsets steps n of
           Inl e \<Rightarrow> Some (Inl e)
         | Inr subsets \<Rightarrow>
             (case find_removable test steps subsets of
                Some remaining_steps \<Rightarrow> ddmin_loop test remaining_steps (max (n - 1) 2)
              | None \<Rightarrow> ddmin_loop test steps (min (n * 2) (length steps))))
      else Some (Inr steps))"

declare ddmin_loop.simps [code]

definition delta_minimization_algorithm ::
  "('a list \<Rightarrow> bool) \<Rightarrow> 'a list \<Rightarrow> (py_error + 'a list) option" where
  "delta_minimization_algorithm test steps = ddmin_loop test steps 2"

text \<open>
  A step list is 1-minimal for a test when removing the members of any non-empty
  selection of its steps makes the test pass.
\<close>

definition one_minimal :: "('a list \<Rightarrow> bool) \<Rightarrow> 'a list \<Rightarrow> bool" where
  "one_minimal test steps \<longleftrightarrow>
     (\<forall>sub. sub \<noteq> [] \<and> set sub \<subseteq> set steps \<longrightarrow>
        \<not> test (filter (\<lambda>s. s \<notin> set sub) steps))"

text \<open>A test that fails exactly when the steps \<open>b\<close> and \<open>d\<close> are both present.\<close>

definition failure_needs_b_and_d :: "string list \<Rightarrow> bool" where
  "failure_needs_b_and_d s \<longleftrightarrow> ''b'' \<in> set s \<and> ''d'' \<in> set s"

subsection \<open>Persistence of a validation cycle\<close>





text \<open>
  The part of the \<open>validation_summary\<close> dictionary that the persistence step reads.
\<close>

record validation_summary =
  stability_analysis :: stability_metrics
  run_results :: "run_result list"




text \<open>Fixtures: a run with a given number and outcome, and a store holding one repro.\<close>

definition run_outcome :: "nat \<Rightarrow> bool \<Rightarrow> run_result" where
  "run_outcome i p =
     \<lparr>run_number = i, passed = p, duration_ms = 0, logs = [], video_url = [],
      trace_url = [], error = None\<rparr>"


section \<open>Signal worker: data and operations\<close>

subsection \<open>HAR parsing\<close>

text \<open>
  The part of a HAR document that \<open>parse_har_file\<close> reads, after \<open>json.load\<close>. A key that
  may be missing is an \<open>option\<close>; numbers have the types of the HAR schema (an integer
  status and size, a possibly fractional \<open>onLoad\<close> in milliseconds); headers are
  name/value pairs.
\<close>

record page_timings =
  onLoad :: "real option"
  onContentLoad :: "real option"

record har_page =
  page_id :: "string option"
  title :: "string option"
  startedDateTime :: "string option"
  pageTimings :: "page_timings option"

record har_request =
  url :: "string option"
  http_method :: "string option"
  request_headers :: "(string \<times> string) list"

record har_response =
  status :: "int option"
  statusText :: "string option"
  response_headers :: "(string \<times> string) list"
  content_size :: "int option"

record har_entry =
  request :: "har_request option"
  response :: "har_response option"

record har_log =
  pages :: "har_page list"
  entries :: "har_entry list"

text \<open>The result: the parsed entries and the summary.\<close>

record parsed_entry =
  parsed_url :: "string option"
  parsed_method :: "string option"
  parsed_status :: int
  requestHeaders :: nat
  responseHeaders :: nat
  requestSize :: nat
  responseSize :: int

record har_summary =
  total_requests :: nat
  failed_requests :: nat
  total_size :: int
  load_time :: real

record parsed_har =
  parsed_pages :: "har_page list"
  parsed_entries :: "parsed_entry list"
  har_summary :: har_summary

text \<open>\<open>entry.get('response', {}).get('status', 0)\<close> and the like: a missing key reads as 0.\<close>

definition entry_status :: "har_entry \<Rightarrow> int" where
  "entry_status entry =
     (case response entry of None \<Rightarrow> 0
      | Some r \<Rightarrow> (case status r of None \<Rightarrow> 0 | Some s \<Rightarrow> s))"

definition entry_size :: "har_entry \<Rightarrow> int" where
  "entry_size entry =
     (case response entry of None \<Rightarrow> 0
      | Some r \<Rightarrow> (case content_size r of None \<Rightarrow> 0 | Some s \<Rightarrow> s))"

definition page_onLoad :: "har_page \<Rightarrow> real" where
  "page_onLoad page =
     (case pageTimings page of None \<Rightarrow> 0
      | Some t \<Rightarrow> (case onLoad t of None \<Rightarrow> 0 | Some v \<Rightarrow> v))"

definition parse_entry :: "har_entry \<Rightarrow> parsed_entry" where
  "parse_entry entry =
     (let req_headers = (case request entry of None \<Rightarrow> [] | Some q \<Rightarrow> request_headers q);
          res_headers = (case response entry of None \<Rightarrow> [] | Some r \<Rightarrow> response_headers r)
      in \<lparr>parsed_url = (case request entry of None \<Rightarrow> None | Some q \<Rightarrow> url q),
          parsed_method = (case request entry of None \<Rightarrow> None | Some q \<Rightarrow> http_method q),
          parsed_status = entry_status entry,
          requestHeaders = length req_headers,
          responseHeaders = length res_headers,
          requestSize = sum_list (map (\<lambda>(name, value). length value + length name) req_headers),
          responseSize = entry_size entry\<rparr>)"

text \<open>
  The \<open>for entry in \<dots>\<close> loop, with its accumulators \<open>total_requests\<close>,
  \<open>failed_requests\<close>, \<open>total_size\<close> and \<open>entries\<close>.
\<close>

fun parse_entries ::
  "har_entry list \<Rightarrow> nat \<times> nat \<times> int \<times> parsed_entry list \<Rightarrow> nat \<times> nat \<times> int \<times> parsed_entry list" where
  "parse_entries [] acc = acc"
| "parse_entries (entry # rest) (n_total, n_failed, bytes_total, parsed) =
     parse_entries rest
       (n_total + 1,
        (if 400 \<le> entry_status entry then n_failed + 1 else n_failed),
        (if 0 < entry_size entry then bytes_total + entry_size entry else bytes_total),
        parsed @ [parse_entry entry])"

text \<open>Python's \<open>max\<close> of a list; it raises \<open>ValueError\<close> on the empty list.\<close>

fun py_max :: "real list \<Rightarrow> py_error + real" where
  "py_max [] = Inl ValueError"
| "py_max (x # xs) = Inr (fold max xs x)"

definition parse_har_file :: "har_log \<Rightarrow> parsed_har" where
  "parse_har_file har_data =
     (case parse_entries (entries har_data) (0, 0, 0, []) of
        (n_total, n_failed, bytes_total, parsed) \<Rightarrow>
          let load_times = filter (\<lambda>t. 0 < t) (map page_onLoad (pages har_data));
              load_time = (if pages har_data \<noteq> [] \<and> load_times \<noteq> []
                           then (case py_max load_times of Inr m \<Rightarrow> m | Inl e \<Rightarrow> 0)
                           else 0)
          in \<lparr>parsed_pages = pages har_data,
              parsed_entries = parsed,
              har_summary = \<lparr>total_requests = n_total,
                              failed_requests = n_failed,
                              total_size = bytes_total,
                              load_time = load_time\<rparr>\<rparr>)"

text \<open>Fixtures: an entry with a method and a status, a page with an \<open>onLoad\<close> timing.\<close>

definition entry_with :: "string \<Rightarrow> int \<Rightarrow> har_entry" where
  "entry_with m s =
     \<lparr>request = Some \<lparr>url = Some ''https://example.com/checkout'', http_method = Some m,
                       request_headers = []\<rparr>,
      response = Some \<lparr>status = Some s, statusText = None, response_headers = [],
                        content_size = None\<rparr>\<rparr>"

definition page_with :: "real \<Rightarrow> har_page" where
  "page_with t =
     \<lparr>page_id = None, title = None, startedDateTime = None,
      pageTimings = Some \<lparr>onLoad = Some t, onContentLoad = None\<rparr>\<rparr>"

subsection \<open>Error signatures and clustering\<close>















subsection \<open>Persistence of the clustered signatures\<close>





section \<open>Map worker: data and operations\<close>

subsection \<open>Confidence of a mapping\<close>

text \<open>
  A row returned by \<open>search_documents\<close>; \<open>similarity\<close> is one minus the cosine distance
  that the store computes, so it lies between -1 and 1.
\<close>

record doc_result =
  file_path :: string
  chunk_text :: string
  similarity :: real

text \<open>
  \<open>_calculate_confidence\<close>. The framework scores are a dictionary from framework name to
  score, here a list of pairs; \<open>max(framework_scores.values())\<close> is only evaluated when
  the dictionary is not empty.
\<close>

definition calculate_confidence :: "(string \<times> real) list \<Rightarrow> doc_result list \<Rightarrow> real" where
  "calculate_confidence framework_scores doc_results =
     (let confidence0 = 0;
          confidence1 =
            (case map snd framework_scores of
               [] \<Rightarrow> confidence0
             | v # vs \<Rightarrow> confidence0 + fold max vs v * 0.4);
          confidence2 =
            (if doc_results \<noteq> []
             then confidence1 +
                  sum_list (map similarity doc_results) / real (length doc_results) * 0.6
             else confidence1)
      in min confidence2 1)"

text \<open>
  The two quantities of the specification's formula, a missing side contributing 0.
\<close>

definition spec_max_framework_score :: "(string \<times> real) list \<Rightarrow> real" where
  "spec_max_framework_score framework_scores =
     (if framework_scores = [] then 0 else Max (set (map snd framework_scores)))"

definition spec_mean_similarity :: "doc_result list \<Rightarrow> real" where
  "spec_mean_similarity doc_results =
     (if doc_results = [] then 0
      else sum_list (map similarity doc_results) / real (length doc_results))"

subsection \<open>Splitting a document into chunks\<close>

definition CHUNK_SIZE :: nat where
  "CHUNK_SIZE = 1000"

definition CHUNK_OVERLAP :: nat where
  "CHUNK_OVERLAP = 200"

text \<open>\<open>s.rfind(c)\<close>: the last index of \<open>c\<close> in \<open>s\<close>, or -1.\<close>

fun rfind_from :: "char \<Rightarrow> string \<Rightarrow> int \<Rightarrow> int \<Rightarrow> int" where
  "rfind_from c [] i found = found"
| "rfind_from c (x # xs) i found = rfind_from c xs (i + 1) (if x = c then i else found)"

definition rfind :: "char \<Rightarrow> string \<Rightarrow> int" where
  "rfind c s = rfind_from c s 0 (- 1)"

text \<open>
  One pass of the \<open>while\<close> loop of \<open>_split_content\<close> computes the end of the chunk that
  begins at \<open>start\<close>: \<open>start + CHUNK_SIZE\<close>, or one past the last full stop or newline of
  the chunk when the chunk is not the last one and that break point exceeds
  \<open>start + CHUNK_SIZE * 0.7\<close>. The source compares the break point, an index inside the
  chunk, with that absolute position; the model does the same.
\<close>

definition chunk_end :: "string \<Rightarrow> nat \<Rightarrow> nat" where
  "chunk_end content start =
     (let end_pos = start + CHUNK_SIZE;
          chunk = py_slice content start end_pos
      in if end_pos < length content then
           (let last_period = rfind (CHR ''.'') chunk;
                last_newline = rfind (CHR 0x0A) chunk;
                break_point = max last_period last_newline
            in if real_of_int break_point > real start + real CHUNK_SIZE * 0.7
               then start + nat break_point + 1
               else end_pos)
         else end_pos)"







section \<open>Ingest worker: data and operations\<close>











section \<open>Validate worker: delta minimization\<close>

lemma find_removable_Some:
  "find_removable test steps subsets = Some r \<Longrightarrow> test r"
  by (induction subsets) (auto simp: Let_def split: if_splits)

lemma ddmin_loop_sound:
  assumes "ddmin_loop test steps n = Some y"
  shows "\<forall>S'. y = Inr S' \<longrightarrow> (2 \<le> length steps \<or> test steps) \<longrightarrow> test S'"
proof (rule ddmin_loop.raw_induct
    [where P = "\<lambda>test steps n y. \<forall>S'. y = Inr S' \<longrightarrow> (2 \<le> length steps \<or> test steps) \<longrightarrow> test S'",
      OF _ assms])
  fix loop :: "('a list \<Rightarrow> bool) \<Rightarrow> 'a list \<Rightarrow> nat \<Rightarrow> (py_error + 'a list) option"
  fix test steps n y
  assume IH: "\<And>test steps n y. loop test steps n = Some y \<Longrightarrow>
           \<forall>S'. y = Inr S' \<longrightarrow> (2 \<le> length steps \<or> test steps) \<longrightarrow> test S'"
  assume body: "(if 2 \<le> length steps then
        (case split_into_subsets steps n of
           Inl e \<Rightarrow> Some (Inl e)
         | Inr subsets \<Rightarrow>
             (case find_removable test steps subsets of
                Some remaining_steps \<Rightarrow> loop test remaining_steps (max (n - 1) 2)
              | None \<Rightarrow> loop test steps (min (n * 2) (length steps))))
      else Some (Inr steps)) = Some y"
  show "\<forall>S'. y = Inr S' \<longrightarrow> (2 \<le> length steps \<or> test steps) \<longrightarrow> test S'"
  proof (cases "2 \<le> length steps")
    case False
    with body show ?thesis by auto
  next
    case True
    show ?thesis
    proof (cases "split_into_subsets steps n")
      case (Inl e)
      with True body show ?thesis by auto
    next
      case (Inr subsets)
      show ?thesis
      proof (cases "find_removable test steps subsets")
        case None
        with True Inr body have "loop test steps (min (n * 2) (length steps)) = Some y" by simp
        from IH[OF this] True show ?thesis by blast
      next
        case (Some r)
        with True Inr body have "loop test r (max (n - 1) 2) = Some y" by simp
        from IH[OF this] find_removable_Some[OF Some] show ?thesis by blast
      qed
    qed
  qed
qed

text \<open>
  C2 (minimization soundness). For every step list \<open>S\<close> with at least two steps and every
  test predicate: if the delta-minimization algorithm returns \<open>S'\<close>, the test on \<open>S'\<close>
  still fails. And a reduction is only ever taken when the test on the remaining steps
  still fails.
\<close>

theorem C2_minimization_soundness:
  "(2 \<le> length S \<and> delta_minimization_algorithm test S = Some (Inr S') \<longrightarrow> test S') \<and>
   (find_removable test steps subsets = Some remaining \<longrightarrow> test remaining)"
  using ddmin_loop_sound[of test S 2 "Inr S'"] find_removable_Some[of test steps subsets remaining]
  by (auto simp: delta_minimization_algorithm_def)

theorem C2_minimization_soundness_witness:
  "2 \<le> length (extract_test_steps \<lparr>run_number = 1, passed = False, duration_ms = 0, logs = [],
                                     video_url = [], trace_url = [], error = None\<rparr>) \<and>
   delta_minimization_algorithm test_steps_still_fail
     (extract_test_steps \<lparr>run_number = 1, passed = False, duration_ms = 0, logs = [],
                          video_url = [], trace_url = [], error = None\<rparr>)
     = Some (Inr [[(''type'', ''assertion''), (''selector'', ''h1''), (''expected'', ''Success''),
                   (''description'', ''Verify success'')]]) \<and>
   test_steps_still_fail [[(''type'', ''assertion''), (''selector'', ''h1''),
                           (''expected'', ''Success''), (''description'', ''Verify success'')]] \<and>
   find_removable test_steps_still_fail [[(''type'', ''a'')], [(''type'', ''b'')]]
     [[[(''type'', ''a'')]], [[(''type'', ''b'')]]] = Some [[(''type'', ''b'')]] \<and>
   test_steps_still_fail [[(''type'', ''b'')]]"
proof -
  let ?r = "\<lparr>run_number = 1, passed = False, duration_ms = 0, logs = [],
            video_url = [], trace_url = [], error = None\<rparr>"
  let ?a = "[(''type'', ''assertion''), (''selector'', ''h1''), (''expected'', ''Success''),
             (''description'', ''Verify success'')]"
  have len: "2 \<le> length (extract_test_steps ?r)"
    by (simp add: extract_test_steps_def)
  have run: "delta_minimization_algorithm test_steps_still_fail (extract_test_steps ?r)
               = Some (Inr [?a])"
    unfolding extract_test_steps_def by code_simp
  have fr: "find_removable test_steps_still_fail [[(''type'', ''a'')], [(''type'', ''b'')]]
              [[[(''type'', ''a'')]], [[(''type'', ''b'')]]] = Some [[(''type'', ''b'')]]"
    by code_simp
  from C2_minimization_soundness
         [of "extract_test_steps ?r" test_steps_still_fail "[?a]"
             "[[(''type'', ''a'')], [(''type'', ''b'')]]"
             "[[[(''type'', ''a'')]], [[(''type'', ''b'')]]]" "[[(''type'', ''b'')]]"]
    len run fr
  have "test_steps_still_fail [?a] \<and> test_steps_still_fail [[(''type'', ''b'')]]" by blast
  with len run fr show ?thesis by blast
qed

lemma slices_nonempty: "sub \<in> set (slices sz xs) \<Longrightarrow> sub \<noteq> [] \<and> set sub \<subseteq> set xs"
proof (induction sz xs rule: slices.induct)
  case (1 sz xs)
  show ?case
  proof (cases "sz = 0 \<or> xs = []")
    case True
    with 1(2) show ?thesis by (simp add: slices.simps)
  next
    case False
    with 1(2) have "sub = take sz xs \<or> sub \<in> set (slices sz (drop sz xs))"
      by (subst (asm) slices.simps) simp
    then show ?thesis
    proof
      assume "sub = take sz xs"
      with False show ?thesis by (auto dest: in_set_takeD)
    next
      assume "sub \<in> set (slices sz (drop sz xs))"
      from 1(1)[OF False this] show ?thesis by (auto dest: in_set_dropD)
    qed
  qed
qed

lemma find_removable_None:
  assumes "one_minimal test steps" "\<forall>sub \<in> set subsets. sub \<noteq> [] \<and> set sub \<subseteq> set steps"
  shows "find_removable test steps subsets = None"
  using assms(2)
proof (induction subsets)
  case Nil
  then show ?case by simp
next
  case (Cons sub subsets)
  then have "\<not> test (filter (\<lambda>s. s \<notin> set sub) steps)"
    using assms(1) by (simp add: one_minimal_def)
  with Cons show ?case by simp
qed

lemma ddmin_loop_stuck:
  assumes "ddmin_loop test steps n = Some y"
  shows "\<not> (one_minimal test steps \<and> 2 \<le> length steps \<and> 0 < n \<and> n \<le> length steps)"
proof (rule ddmin_loop.raw_induct
    [where P = "\<lambda>test steps n y.
        \<not> (one_minimal test steps \<and> 2 \<le> length steps \<and> 0 < n \<and> n \<le> length steps)",
      OF _ assms])
  fix loop :: "('a list \<Rightarrow> bool) \<Rightarrow> 'a list \<Rightarrow> nat \<Rightarrow> (py_error + 'a list) option"
  fix test steps n y
  assume IH: "\<And>test steps n y. loop test steps n = Some y \<Longrightarrow>
           \<not> (one_minimal test steps \<and> 2 \<le> length steps \<and> 0 < n \<and> n \<le> length steps)"
  assume body: "(if 2 \<le> length steps then
        (case split_into_subsets steps n of
           Inl e \<Rightarrow> Some (Inl e)
         | Inr subsets \<Rightarrow>
             (case find_removable test steps subsets of
                Some remaining_steps \<Rightarrow> loop test remaining_steps (max (n - 1) 2)
              | None \<Rightarrow> loop test steps (min (n * 2) (length steps))))
      else Some (Inr steps)) = Some y"
  show "\<not> (one_minimal test steps \<and> 2 \<le> length steps \<and> 0 < n \<and> n \<le> length steps)"
  proof
    assume a: "one_minimal test steps \<and> 2 \<le> length steps \<and> 0 < n \<and> n \<le> length steps"
    then have sz: "0 < length steps div n" by (simp add: div_greater_zero_iff)
    then have sp: "split_into_subsets steps n = Inr (slices (length steps div n) steps)"
      using a by (simp add: split_into_subsets_def)
    have "find_removable test steps (slices (length steps div n) steps) = None"
      using a by (intro find_removable_None) (auto dest: slices_nonempty)
    with body sp a have "loop test steps (min (n * 2) (length steps)) = Some y" by simp
    from IH[OF this] a show False by auto
  qed
qed

text \<open>
  Once the step list is 1-minimal with two or more steps, no subset can be removed, the
  partition count saturates at the number of steps, and the loop runs forever.
\<close>

lemma ddmin_loop_never_returns:
  "one_minimal test steps \<Longrightarrow> 2 \<le> length steps \<Longrightarrow> 0 < n \<Longrightarrow> n \<le> length steps \<Longrightarrow>
     ddmin_loop test steps n = None"
  using ddmin_loop_stuck[of test steps n] by (cases "ddmin_loop test steps n") auto

lemma ddmin_loop_grow:
  "2 \<le> length steps \<Longrightarrow> split_into_subsets steps n = Inr subsets \<Longrightarrow>
   find_removable test steps subsets = None \<Longrightarrow> n' = min (n * 2) (length steps) \<Longrightarrow>
   ddmin_loop test steps n = ddmin_loop test steps n'"
  by (subst ddmin_loop.simps) simp

lemma ddmin_loop_reduce:
  "2 \<le> length steps \<Longrightarrow> split_into_subsets steps n = Inr subsets \<Longrightarrow>
   find_removable test steps subsets = Some remaining_steps \<Longrightarrow> n' = max (n - 1) 2 \<Longrightarrow>
   ddmin_loop test steps n = ddmin_loop test remaining_steps n'"
  by (subst ddmin_loop.simps) simp

lemma one_minimal_b_d: "one_minimal failure_needs_b_and_d [''b'', ''d'']"
  unfolding one_minimal_def
proof (intro allI impI)
  fix sub :: "string list"
  assume "sub \<noteq> [] \<and> set sub \<subseteq> set [''b'', ''d'']"
  then obtain x where "x \<in> set sub" "x = ''b'' \<or> x = ''d''"
    by (cases sub) auto
  then show "\<not> failure_needs_b_and_d (filter (\<lambda>s. s \<notin> set sub) [''b'', ''d''])"
    by (auto simp: failure_needs_b_and_d_def)
qed

text \<open>
  C3 (termination of the minimizer). The claim is that the loop always ends: it breaks
  when no removal keeps the failure and the partition count has reached the number of
  steps, and a time budget bounds the search. The source loop has neither exit. On the
  steps \<open>a, b, c, d\<close> with a failure that needs \<open>b\<close> and \<open>d\<close>, it reduces the list to
  \<open>b, d\<close> and then never returns.
\<close>

theorem C3_ddmin_never_returns:
  "delta_minimization_algorithm failure_needs_b_and_d [''a'', ''b'', ''c'', ''d''] = None"
proof -
  let ?t = "failure_needs_b_and_d"
  have sp1: "split_into_subsets [''a'', ''b'', ''c'', ''d''] 2 = Inr [[''a'', ''b''], [''c'', ''d'']]"
    by code_simp
  have fr1: "find_removable ?t [''a'', ''b'', ''c'', ''d''] [[''a'', ''b''], [''c'', ''d'']] = None"
    by code_simp
  have 1: "ddmin_loop ?t [''a'', ''b'', ''c'', ''d''] 2 = ddmin_loop ?t [''a'', ''b'', ''c'', ''d''] 4"
    by (rule ddmin_loop_grow[OF _ sp1 fr1]) simp_all
  have sp2: "split_into_subsets [''a'', ''b'', ''c'', ''d''] 4 = Inr [[''a''], [''b''], [''c''], [''d'']]"
    by code_simp
  have fr2: "find_removable ?t [''a'', ''b'', ''c'', ''d''] [[''a''], [''b''], [''c''], [''d'']]
         = Some [''b'', ''c'', ''d'']"
    by code_simp
  have 2: "ddmin_loop ?t [''a'', ''b'', ''c'', ''d''] 4 = ddmin_loop ?t [''b'', ''c'', ''d''] 3"
    by (rule ddmin_loop_reduce[OF _ sp2 fr2]) simp_all
  have sp3: "split_into_subsets [''b'', ''c'', ''d''] 3 = Inr [[''b''], [''c''], [''d'']]"
    by code_simp
  have fr3: "find_removable ?t [''b'', ''c'', ''d''] [[''b''], [''c''], [''d'']] = Some [''b'', ''d'']"
    by code_simp
  have 3: "ddmin_loop ?t [''b'', ''c'', ''d''] 3 = ddmin_loop ?t [''b'', ''d''] 2"
    by (rule ddmin_loop_reduce[OF _ sp3 fr3]) simp_all
  have 4: "ddmin_loop ?t [''b'', ''d''] 2 = None"
    by (rule ddmin_loop_never_returns[OF one_minimal_b_d]) simp_all
  show ?thesis
    unfolding delta_minimization_algorithm_def by (simp only: 1 2 3 4)
qed

text \<open>
  The same happens with the stub test of the source on two equal steps: removing either
  one removes both, the stub passes on the empty list, and nothing is ever removed.
\<close>

lemma ddmin_stub_never_returns:
  "delta_minimization_algorithm test_steps_still_fail [''click'', ''click''] = None"
  unfolding delta_minimization_algorithm_def
proof (rule ddmin_loop_never_returns)
  show "one_minimal test_steps_still_fail [''click'', ''click'']"
    unfolding one_minimal_def
  proof (intro allI impI)
    fix sub :: "string list"
    assume "sub \<noteq> [] \<and> set sub \<subseteq> set [''click'', ''click'']"
    then have "''click'' \<in> set sub" by (cases sub) auto
    then show "\<not> test_steps_still_fail (filter (\<lambda>s. s \<notin> set sub) [''click'', ''click''])"
      by (simp add: test_steps_still_fail_def)
  qed
qed simp_all

section \<open>Validate worker: stability metrics\<close>

lemma set_results_binary:
  "set (results_binary R) =
     (if \<exists>r \<in> set R. passed r then {1} else {}) \<union> (if \<exists>r \<in> set R. \<not> passed r then {0} else {})"
  by (auto simp: results_binary_def)

lemma mixed_results_iff:
  "1 < card (set (results_binary R)) \<longleftrightarrow> (\<exists>r \<in> set R. passed r) \<and> (\<exists>r \<in> set R. \<not> passed r)"
  by (simp add: set_results_binary)

lemma sum_results_binary:
  "sum_list (map real (results_binary R)) = real (length (filter passed R))"
  by (induction R) (simp_all add: results_binary_def)

lemma sum_sq_dev:
  "sum_list (map (\<lambda>x::real. (x - m)\<^sup>2) xs) =
     sum_list (map (\<lambda>x. x\<^sup>2) xs) - 2 * m * sum_list xs + real (length xs) * m\<^sup>2"
  by (induction xs) (simp_all add: power2_eq_square algebra_simps)

lemma sum_sq_binary:
  "sum_list (map (\<lambda>x::real. x\<^sup>2) (map real (results_binary R))) = real (length (filter passed R))"
  by (induction R) (simp_all add: results_binary_def)

text \<open>The population variance of a 0/1 sequence with mean \<open>p\<close> is \<open>p (1 - p)\<close>.\<close>

lemma np_var_binary:
  assumes "R \<noteq> []"
  shows "np_var (map real (results_binary R)) =
           (real (length (filter passed R)) / real (length R)) *
           (1 - real (length (filter passed R)) / real (length R))"
proof -
  let ?n = "real (length R)"
  let ?p = "real (length (filter passed R))"
  have n: "?n \<noteq> 0" using assms by simp
  have len: "length (results_binary R) = length R" by (simp add: results_binary_def)
  have "np_var (map real (results_binary R)) =
          (?p - 2 * (?p / ?n) * ?p + ?n * (?p / ?n)\<^sup>2) / ?n"
    unfolding np_var_def Let_def sum_sq_dev sum_sq_binary sum_results_binary
    by (simp add: len)
  also have "\<dots> = (?p / ?n) * (1 - ?p / ?n)"
    using n by (simp add: power2_eq_square field_simps)
  finally show ?thesis .
qed

text \<open>
  C1 (stability metrics). For every non-empty list \<open>R\<close> of run results:
  \<open>stability_score\<close> is the number of passed runs divided by the number of runs;
  \<open>flaky_score\<close> is the population variance of the 0/1 pass sequence when the sequence
  holds both a pass and a fail, and 0 otherwise (that variance is \<open>p (1 - p)\<close> for the pass
  rate \<open>p\<close>); the class is \<open>stable\<close> at rate 1, \<open>mostly_stable\<close> from 0.8, \<open>unstable\<close> from
  0.5 and \<open>very_unstable\<close> below.
\<close>

theorem C1_stability_metrics:
  assumes "R \<noteq> []"
  shows "stability_score (calculate_stability_metrics R)
           = real (length (filter passed R)) / real (length R) \<and>
         flaky_score (calculate_stability_metrics R)
           = (if (\<exists>r \<in> set R. passed r) \<and> (\<exists>r \<in> set R. \<not> passed r)
              then np_var (map real (results_binary R)) else 0) \<and>
         np_var (map real (results_binary R))
           = stability_score (calculate_stability_metrics R)
             * (1 - stability_score (calculate_stability_metrics R)) \<and>
         stability_class (calculate_stability_metrics R)
           = Some (if stability_score (calculate_stability_metrics R) = 1 then ''stable''
                   else if 0.8 \<le> stability_score (calculate_stability_metrics R) then ''mostly_stable''
                   else if 0.5 \<le> stability_score (calculate_stability_metrics R) then ''unstable''
                   else ''very_unstable'')"
proof -
  have score: "stability_score (calculate_stability_metrics R)
                 = real (length (filter passed R)) / real (length R)"
    using assms by (simp add: calculate_stability_metrics_def Let_def)
  have flaky: "flaky_score (calculate_stability_metrics R)
           = (if (\<exists>r \<in> set R. passed r) \<and> (\<exists>r \<in> set R. \<not> passed r)
              then np_var (map real (results_binary R)) else 0)"
    unfolding calculate_stability_metrics_def Let_def mixed_results_iff
    using assms by simp
  have var: "np_var (map real (results_binary R))
           = stability_score (calculate_stability_metrics R)
             * (1 - stability_score (calculate_stability_metrics R))"
    by (simp only: score np_var_binary[OF assms])
  have cls: "stability_class (calculate_stability_metrics R)
           = Some (if stability_score (calculate_stability_metrics R) = 1 then ''stable''
                   else if 0.8 \<le> stability_score (calculate_stability_metrics R) then ''mostly_stable''
                   else if 0.5 \<le> stability_score (calculate_stability_metrics R) then ''unstable''
                   else ''very_unstable'')"
    using assms by (simp add: calculate_stability_metrics_def Let_def)
  from score flaky var cls show ?thesis by blast
qed

text \<open>Five runs with outcomes pass, pass, fail, pass, fail: rate 0.6, variance 0.24, unstable.\<close>

theorem C1_stability_metrics_witness:
  "[run_outcome 1 True, run_outcome 2 True, run_outcome 3 False, run_outcome 4 True,
    run_outcome 5 False] \<noteq> [] \<and>
   stability_score (calculate_stability_metrics
     [run_outcome 1 True, run_outcome 2 True, run_outcome 3 False, run_outcome 4 True,
      run_outcome 5 False]) = 0.6 \<and>
   flaky_score (calculate_stability_metrics
     [run_outcome 1 True, run_outcome 2 True, run_outcome 3 False, run_outcome 4 True,
      run_outcome 5 False]) = 0.24 \<and>
   stability_class (calculate_stability_metrics
     [run_outcome 1 True, run_outcome 2 True, run_outcome 3 False, run_outcome 4 True,
      run_outcome 5 False]) = Some ''unstable''"
proof -
  let ?R = "[run_outcome 1 True, run_outcome 2 True, run_outcome 3 False, run_outcome 4 True,
             run_outcome 5 False]"
  have ne: "?R \<noteq> []" by simp
  have rate: "real (length (filter passed ?R)) / real (length ?R) = 0.6"
    by (simp add: run_outcome_def)
  have mixed: "(\<exists>r \<in> set ?R. passed r) \<and> (\<exists>r \<in> set ?R. \<not> passed r)"
    by (simp add: run_outcome_def)
  note C1 = C1_stability_metrics[OF ne]
  have s: "stability_score (calculate_stability_metrics ?R) = 0.6"
    using C1 rate by simp
  have f: "flaky_score (calculate_stability_metrics ?R) = 0.24"
  proof -
    have "flaky_score (calculate_stability_metrics ?R) = np_var (map real (results_binary ?R))"
      using C1 mixed by presburger
    also have "\<dots> = 0.6 * (1 - 0.6)"
      using C1 s by presburger
    finally show ?thesis by simp
  qed
  have c: "stability_class (calculate_stability_metrics ?R) = Some ''unstable''"
  proof -
    have "stability_class (calculate_stability_metrics ?R)
           = Some (if (0.6::real) = 1 then ''stable''
                   else if (0.8::real) \<le> 0.6 then ''mostly_stable''
                   else if (0.5::real) \<le> 0.6 then ''unstable''
                   else ''very_unstable'')"
      using C1 s by presburger
    then show ?thesis by simp
  qed
  from ne s f c show ?thesis by blast
qed

section \<open>Validate worker: persistence\<close>







section \<open>Signal worker: HAR summary\<close>

lemma parse_entries_total:
  "fst (parse_entries es (t, f, s, p)) = t + length es"
  by (induction es arbitrary: t f s p) simp_all

lemma parse_entries_failed:
  "fst (snd (parse_entries es (t, f, s, p)))
     = f + length (filter (\<lambda>e. 400 \<le> entry_status e) es)"
  by (induction es arbitrary: t f s p) simp_all

lemma py_max_Max: "xs \<noteq> [] \<Longrightarrow> py_max xs = Inr (Max (set xs))"
proof (cases xs)
  case Nil
  then show "xs \<noteq> [] \<Longrightarrow> ?thesis" by simp
next
  case (Cons x rest)
  then show ?thesis using Max.set_eq_fold[of x rest] by simp
qed

lemma Max_positive_part:
  fixes ts :: "real list"
  assumes "\<exists>t \<in> set ts. 0 < t"
  shows "Max (set (filter (\<lambda>t. 0 < t) ts)) = Max (set ts)"
proof (rule Max_eqI)
  show "finite (set (filter (\<lambda>t. 0 < t) ts))" by simp
next
  fix y assume "y \<in> set (filter (\<lambda>t. 0 < t) ts)"
  then show "y \<le> Max (set ts)" by simp
next
  from assms obtain t where t: "t \<in> set ts" "0 < t" by blast
  then have "t \<le> Max (set ts)" by simp
  with t have "0 < Max (set ts)" by linarith
  moreover have "Max (set ts) \<in> set ts"
    using t by (intro Max_in) auto
  ultimately show "Max (set ts) \<in> set (filter (\<lambda>t. 0 < t) ts)" by simp
qed

text \<open>
  C7 (HAR summary). For every parsed HAR document: \<open>failed_requests\<close> is the number of
  entries whose response status, read as 0 when missing, is at least 400;
  \<open>total_requests\<close> is the number of entries; and \<open>load_time\<close> is the maximum \<open>onLoad\<close>
  timing over the pages, or 0 when no page has a positive \<open>onLoad\<close> timing.
\<close>

theorem C7_har_summary:
  "failed_requests (har_summary (parse_har_file har))
     = length (filter (\<lambda>e. 400 \<le> entry_status e) (entries har)) \<and>
   total_requests (har_summary (parse_har_file har)) = length (entries har) \<and>
   load_time (har_summary (parse_har_file har))
     = (if list_ex (\<lambda>p. 0 < page_onLoad p) (pages har)
        then Max (set (map page_onLoad (pages har))) else 0)"
proof -
  obtain t f s p where pe: "parse_entries (entries har) (0, 0, 0, []) = (t, f, s, p)"
    by (metis prod_cases4)
  have counts: "t = length (entries har)"
               "f = length (filter (\<lambda>e. 400 \<le> entry_status e) (entries har))"
    using parse_entries_total[of "entries har" 0 0 0 "[]"]
          parse_entries_failed[of "entries har" 0 0 0 "[]"]
    by (simp_all add: pe)
  let ?ts = "map page_onLoad (pages har)"
  have lt: "load_time (har_summary (parse_har_file har))
              = (if list_ex (\<lambda>p. 0 < page_onLoad p) (pages har) then Max (set ?ts) else 0)"
  proof (cases "list_ex (\<lambda>p. 0 < page_onLoad p) (pages har)")
    case True
    then have pos: "\<exists>t \<in> set ?ts. 0 < t" by (auto simp: list_ex_iff)
    then have ne: "filter (\<lambda>t. 0 < t) ?ts \<noteq> []" by (auto simp: filter_empty_conv)
    from pos have "pages har \<noteq> []" by auto
    with ne True show ?thesis
      unfolding parse_har_file_def pe Let_def
      by (simp add: py_max_Max Max_positive_part[OF pos] del: set_filter)
  next
    case False
    then have "filter (\<lambda>t. 0 < t) ?ts = []"
      by (auto simp: list_ex_iff filter_empty_conv)
    with False show ?thesis
      unfolding parse_har_file_def pe Let_def by simp
  qed
  have "failed_requests (har_summary (parse_har_file har)) = f"
       "total_requests (har_summary (parse_har_file har)) = t"
    unfolding parse_har_file_def pe Let_def by simp_all
  with counts lt show ?thesis by simp
qed

text \<open>
  A GET answered with 200 and a POST answered with 500, on one page that loaded in
  1200 ms: two requests, one failed, load time 1200.
\<close>

theorem C7_har_summary_witness:
  "failed_requests (har_summary (parse_har_file
      \<lparr>pages = [page_with 1200], entries = [entry_with ''GET'' 200, entry_with ''POST'' 500]\<rparr>)) = 1 \<and>
   total_requests (har_summary (parse_har_file
      \<lparr>pages = [page_with 1200], entries = [entry_with ''GET'' 200, entry_with ''POST'' 500]\<rparr>)) = 2 \<and>
   load_time (har_summary (parse_har_file
      \<lparr>pages = [page_with 1200], entries = [entry_with ''GET'' 200, entry_with ''POST'' 500]\<rparr>)) = 1200"
  using C7_har_summary
          [of "\<lparr>pages = [page_with 1200],
                entries = [entry_with ''GET'' 200, entry_with ''POST'' 500]\<rparr>"]
  by (simp add: entry_status_def entry_with_def page_onLoad_def page_with_def)

section \<open>Signal worker: clustering\<close>












section \<open>Signal worker: persistence of signatures\<close>













section \<open>Map worker: confidence\<close>

lemma calculate_confidence_formula:
  "calculate_confidence fs ds
     = min (0.4 * spec_max_framework_score fs + 0.6 * spec_mean_similarity ds) 1"
proof (cases "map snd fs")
  case Nil
  then show ?thesis
    by (simp add: calculate_confidence_def spec_max_framework_score_def
          spec_mean_similarity_def Let_def mult.commute)
next
  case (Cons v vs)
  then have ne: "fs \<noteq> []" by auto
  have "fold max vs v = Max (set (map snd fs))"
    using Max.set_eq_fold[of v vs] Cons by simp
  with Cons ne show ?thesis
    by (simp add: calculate_confidence_def spec_max_framework_score_def
          spec_mean_similarity_def Let_def mult.commute)
qed

lemma sum_list_bounds:
  fixes xs :: "real list"
  assumes "list_all (\<lambda>x. 0 \<le> x \<and> x \<le> 1) xs"
  shows "0 \<le> sum_list xs \<and> sum_list xs \<le> real (length xs)"
  using assms by (induction xs) auto

lemma spec_mean_similarity_bounds:
  assumes "list_all (\<lambda>d. 0 \<le> similarity d \<and> similarity d \<le> 1) ds"
  shows "0 \<le> spec_mean_similarity ds \<and> spec_mean_similarity ds \<le> 1"
proof (cases "ds = []")
  case True
  then show ?thesis by (simp add: spec_mean_similarity_def)
next
  case False
  have "list_all (\<lambda>x. 0 \<le> x \<and> x \<le> 1) (map similarity ds)"
    using assms by (simp add: list_all_iff)
  from sum_list_bounds[OF this] False show ?thesis
    by (simp add: spec_mean_similarity_def field_simps)
qed

lemma spec_max_framework_score_bounds:
  assumes "list_all (\<lambda>(name, score). 0 \<le> score \<and> score \<le> 1) fs"
  shows "0 \<le> spec_max_framework_score fs \<and> spec_max_framework_score fs \<le> 1"
proof (cases "fs = []")
  case True
  then show ?thesis by (simp add: spec_max_framework_score_def)
next
  case False
  then have ne: "set (map snd fs) \<noteq> {}" by simp
  have fin: "finite (set (map snd fs))" by simp
  have all: "\<forall>x \<in> set (map snd fs). 0 \<le> x \<and> x \<le> 1"
    using assms by (auto simp: list_all_iff)
  have "Max (set (map snd fs)) \<in> set (map snd fs)"
    using fin ne by (rule Max_in)
  with all have "0 \<le> Max (set (map snd fs)) \<and> Max (set (map snd fs)) \<le> 1" by blast
  with False show ?thesis by (simp add: spec_max_framework_score_def)
qed

text \<open>
  C8 (mapping confidence), as the source has it. The claim says that the confidence is
  \<open>0.4 \<cdot> max + 0.6 \<cdot> mean\<close> and always lies in \<open>[0, 1]\<close>. The source only caps the value
  at 1. What holds for every score map and every list of results: the confidence is the
  minimum of that formula and 1, so it never exceeds 1; and when every framework score
  and every similarity lies in \<open>[0, 1]\<close>, it is the formula itself and lies in \<open>[0, 1]\<close>.
\<close>

theorem C8_confidence:
  "calculate_confidence fs ds
     = min (0.4 * spec_max_framework_score fs + 0.6 * spec_mean_similarity ds) 1 \<and>
   calculate_confidence fs ds \<le> 1 \<and>
   (list_all (\<lambda>(name, score). 0 \<le> score \<and> score \<le> 1) fs \<and>
    list_all (\<lambda>d. 0 \<le> similarity d \<and> similarity d \<le> 1) ds \<longrightarrow>
      calculate_confidence fs ds
        = 0.4 * spec_max_framework_score fs + 0.6 * spec_mean_similarity ds \<and>
      0 \<le> calculate_confidence fs ds)"
proof -
  note f = calculate_confidence_formula[of fs ds]
  have le: "calculate_confidence fs ds \<le> 1" unfolding f by simp
  have "calculate_confidence fs ds
          = 0.4 * spec_max_framework_score fs + 0.6 * spec_mean_similarity ds \<and>
        0 \<le> calculate_confidence fs ds"
    if a: "list_all (\<lambda>(name, score). 0 \<le> score \<and> score \<le> 1) fs"
    and b: "list_all (\<lambda>d. 0 \<le> similarity d \<and> similarity d \<le> 1) ds"
    using spec_max_framework_score_bounds[OF a] spec_mean_similarity_bounds[OF b]
    unfolding f by (auto simp: min_def)
  with f le show ?thesis by blast
qed

text \<open>
  No framework score and one result of similarity -0.5: the confidence is -0.3, below 0.
  One framework score of 3 and no result: the confidence is 1, not \<open>0.4 \<cdot> 3\<close>.
\<close>

theorem C8_confidence_counterexample:
  "calculate_confidence []
     [\<lparr>file_path = ''README.md'', chunk_text = ''checkout'', similarity = - 0.5\<rparr>] = - 0.3 \<and>
   \<not> 0 \<le> calculate_confidence []
     [\<lparr>file_path = ''README.md'', chunk_text = ''checkout'', similarity = - 0.5\<rparr>] \<and>
   calculate_confidence [(''react'', 3)] [] = 1 \<and>
   calculate_confidence [(''react'', 3)] []
     \<noteq> 0.4 * spec_max_framework_score [(''react'', 3)] + 0.6 * spec_mean_similarity []"
  by (simp add: calculate_confidence_def spec_max_framework_score_def spec_mean_similarity_def)

theorem C8_confidence_witness:
  "list_all (\<lambda>(name, score). 0 \<le> score \<and> score \<le> 1)
     [(''react'', 0.75 :: real), (''vue'', 0.25)] \<and>
   list_all (\<lambda>d. 0 \<le> similarity d \<and> similarity d \<le> 1)
     [\<lparr>file_path = ''a.md'', chunk_text = ''x'', similarity = 0.9\<rparr>,
      \<lparr>file_path = ''b.md'', chunk_text = ''y'', similarity = 0.5\<rparr>] \<and>
   calculate_confidence [(''react'', 0.75), (''vue'', 0.25)]
     [\<lparr>file_path = ''a.md'', chunk_text = ''x'', similarity = 0.9\<rparr>,
      \<lparr>file_path = ''b.md'', chunk_text = ''y'', similarity = 0.5\<rparr>] = 0.72 \<and>
   0 \<le> calculate_confidence [(''react'', 0.75), (''vue'', 0.25)]
     [\<lparr>file_path = ''a.md'', chunk_text = ''x'', similarity = 0.9\<rparr>,
      \<lparr>file_path = ''b.md'', chunk_text = ''y'', similarity = 0.5\<rparr>]"
proof -
  let ?fs = "[(''react'', 0.75 :: real), (''vue'', 0.25)]"
  let ?ds = "[\<lparr>file_path = ''a.md'', chunk_text = ''x'', similarity = 0.9\<rparr>,
              \<lparr>file_path = ''b.md'', chunk_text = ''y'', similarity = 0.5\<rparr>]"
  have a: "list_all (\<lambda>(name, score). 0 \<le> score \<and> score \<le> 1) ?fs" by simp
  have b: "list_all (\<lambda>d. 0 \<le> similarity d \<and> similarity d \<le> 1) ?ds" by simp
  have m: "spec_max_framework_score ?fs = 0.75" by (simp add: spec_max_framework_score_def)
  have s: "spec_mean_similarity ?ds = 0.7" by (simp add: spec_mean_similarity_def)
  from C8_confidence[of ?fs ?ds] a b
  have "calculate_confidence ?fs ?ds
          = 0.4 * spec_max_framework_score ?fs + 0.6 * spec_mean_similarity ?ds"
    and nonneg: "0 \<le> calculate_confidence ?fs ?ds"
    by blast+
  then have v: "calculate_confidence ?fs ?ds = 0.72" unfolding m s by simp
  from a b v nonneg show ?thesis by blast
qed

section \<open>Map worker: chunk windows\<close>



lemma chunk_end_beyond_overlap: "start + CHUNK_OVERLAP < chunk_end content start"
  by (auto simp: chunk_end_def Let_def CHUNK_SIZE_def CHUNK_OVERLAP_def)















section \<open>Ingest worker: log extraction\<close>








end
